theory Spec2Isabelle
  imports
    Complex_Main
    "HOL-Library.FSet"
    "HOL-Library.Char_ord"
    "HOL-Library.List_Lexorder"
begin

section \<open>AutoWeeklyReport: the aggregation pipeline of \<open>AutoWeeklyReport.py\<close>\<close>

text \<open>
  The script keeps three module-level variables (\<open>stats\<close>, \<open>contributors\<close>,
  \<open>project_tasks\<close>) that its three fetch stages mutate, and then computes a KPI, reads the
  previous KPI from the \<open>reports/\<close> directory, assigns badges and writes a report.

  Modelling decisions, fixed here once:
  \<^item> The module-level variables and the console are one record \<open>state\<close> that every stage
    takes and returns.
  \<^item> Python's unbounded integers are \<open>int\<close>. A Python float is a \<open>pyfloat\<close>: a finite
    double as the rational it is, an infinity or a NaN. Conversions from \<open>int\<close>, products,
    sums and \<open>float(s)\<close> round to the nearest double, ties to even, as IEEE 754 and
    CPython do. The kpi of a contributor is kept as the exact sum of its weights 1, 2 and
    2.5, which is what the float holds as long as it stays below \<open>2 ^ 52\<close>.
  \<^item> Strings are \<open>char list\<close>s (bytes). \<open>str.lower\<close> is modelled on the ASCII letters
    and leaves every other byte as it is, and a digit is one of the ASCII digits; the
    statements about reading numbers out of file names and lines are about ASCII text.
  \<^item> The JSON the three HTTP calls return is decoded into typed records whose fields are the
    ones the script reads; a field whose absence the script tests for (or trips over) is an
    \<open>option\<close>. A response that is not a JSON list is kept as the JSON value it is.
  \<^item> A timestamp string is represented by what \<open>dateutil.parser.parse\<close> returns for it:
    an instant on the UTC time line in microseconds (\<open>int\<close>), or, for a commit, the
    calendar date \<open>.date()\<close> as a day ordinal.
  \<^item> An exception is a value: a loop body returns \<open>py_error + state\<close>, and a stage returns
    an \<open>outcome\<close> that carries the global state at the moment the stage was left.
\<close>

subsection \<open>Strings\<close>

definition lower_char :: "char \<Rightarrow> char" where
  "lower_char c =
     (case map_of (zip ''ABCDEFGHIJKLMNOPQRSTUVWXYZ'' ''abcdefghijklmnopqrstuvwxyz'') c of
        None \<Rightarrow> c
      | Some l \<Rightarrow> l)"

text \<open>\<open>s.lower()\<close>\<close>

definition lower :: "string \<Rightarrow> string" where
  "lower s = map lower_char s"

text \<open>\<open>s.startswith(p)\<close>\<close>

definition startswith :: "string \<Rightarrow> string \<Rightarrow> bool" where
  "startswith s p = (take (length p) s = p)"

text \<open>\<open>sub in s\<close> for two strings: \<open>sub\<close> occurs in \<open>s\<close> as a contiguous substring.\<close>

fun str_in :: "string \<Rightarrow> string \<Rightarrow> bool" where
  "str_in sub [] = (sub = [])"
| "str_in sub (c # cs) = (startswith (c # cs) sub \<or> str_in sub cs)"

subsection \<open>The aggregate state\<close>

type_synonym instant = int
type_synonym cal_date = int

text \<open>The dictionary \<open>stats\<close> (lines 34 to 43); \<open>stat_add\<close>, \<open>stat_fix\<close> and
  \<open>stat_refactor\<close> are its keys \<open>"add"\<close>, \<open>"fix"\<close> and \<open>"refactor"\<close>.\<close>

record global_stats =
  stat_add :: int
  stat_fix :: int
  stat_refactor :: int
  other_commits :: int
  issues_opened :: int
  issues_closed :: int
  bugs_closed :: int
  tasks_completed :: int

definition initial_stats :: global_stats where
  "initial_stats =
     \<lparr>stat_add = 0, stat_fix = 0, stat_refactor = 0, other_commits = 0,
      issues_opened = 0, issues_closed = 0, bugs_closed = 0, tasks_completed = 0\<rparr>"

text \<open>One value of the \<open>defaultdict\<close> \<open>contributors\<close> (lines 46 to 53).\<close>

record contributor =
  kpi :: rat
  bug_fixes :: int
  total_actions :: int
  add_commits :: int
  refactor_commits :: int
  active_days :: "cal_date fset"

definition default_contributor :: contributor where
  "default_contributor =
     \<lparr>kpi = 0, bug_fixes = 0, total_actions = 0, add_commits = 0, refactor_commits = 0,
      active_days = {||}\<rparr>"

text \<open>An entry of \<open>project_tasks\<close> (lines 190 to 194). The field \<open>updated\<close> holds the
  minute of the UTC time line that the text \<open>strftime('%Y-%m-%d %H:%M')\<close> denotes.\<close>

record project_task =
  title :: string
  status :: string
  updated :: int

text \<open>JSON values, for responses that are not lists of records.\<close>

datatype json =
    JNull
  | JBool bool
  | JNum rat
  | JStr string
  | JList "json list"
  | JDict "(string \<times> json) list"

text \<open>What \<open>response.json()\<close> gave: a list of records, or a JSON value that is not a
  list (null, a boolean, a number, a string or an object such as GitHub's error object
  \<open>{"message": "Bad credentials", ...}\<close>).\<close>

datatype nonlist =
    Null
  | Boolean bool
  | Number rat
  | Text string
  | Object "(string \<times> json) list"

datatype 'r response = Records "'r list" | NotList nonlist

datatype py_error = TypeError | KeyError | IndexError | OverflowError

text \<open>What the script prints when a stage reports a problem (lines 70 and 196).\<close>

datatype diagnostic = CommitsApiError nonlist | ProjectTasksError py_error

text \<open>The dictionary \<open>contributors\<close> is an association list in insertion order, which
  is the order \<open>contributors.items()\<close> iterates in.\<close>

record state =
  stats :: global_stats
  contributors :: "(string \<times> contributor) list"
  project_tasks :: "project_task list"
  printed :: "diagnostic list"

definition initial_state :: state where
  "initial_state =
     \<lparr>stats = initial_stats, contributors = [], project_tasks = [], printed = []\<rparr>"

datatype outcome = Returned state | Raised py_error state

fun final_state :: "outcome \<Rightarrow> state" where
  "final_state (Returned st) = st"
| "final_state (Raised e st) = st"

text \<open>\<open>contributors[k]\<close> read back: the entry of \<open>k\<close>, the default when there is none.\<close>

definition contributor_of :: "(string \<times> contributor) list \<Rightarrow> string \<Rightarrow> contributor" where
  "contributor_of cs k = (case map_of cs k of None \<Rightarrow> default_contributor | Some v \<Rightarrow> v)"

text \<open>\<open>contributors[k][field] += ...\<close>: the \<open>defaultdict\<close> creates the entry of a new
  key at the end, then the field is updated in place.\<close>

fun update_entry ::
  "(contributor \<Rightarrow> contributor) \<Rightarrow> string \<Rightarrow> (string \<times> contributor) list
     \<Rightarrow> (string \<times> contributor) list" where
  "update_entry f k [] = [(k, f default_contributor)]"
| "update_entry f k ((k', v) # kvs) =
     (if k = k' then (k', f v) # kvs else (k', v) # update_entry f k kvs)"

definition with_contributor :: "string \<Rightarrow> (contributor \<Rightarrow> contributor) \<Rightarrow> state \<Rightarrow> state" where
  "with_contributor k f st = st\<lparr>contributors := update_entry f k (contributors st)\<rparr>"

definition with_stats :: "(global_stats \<Rightarrow> global_stats) \<Rightarrow> state \<Rightarrow> state" where
  "with_stats f st = st\<lparr>stats := f (stats st)\<rparr>"

subsection \<open>Binary floating point\<close>

text \<open>\<open>n.bit_length()\<close> for a positive integer, 0 otherwise.\<close>

function bit_length :: "int \<Rightarrow> nat" where
  "bit_length n = (if n \<le> 0 then 0 else Suc (bit_length (n div 2)))"
  by pat_completeness auto
termination
  by (relation "measure nat") auto

declare bit_length.simps [simp del]

text \<open>The binary exponent of \<open>x \<noteq> 0\<close>: the \<open>e\<close> with \<open>2 ^ e \<le> |x| < 2 ^ (e + 1)\<close>.\<close>

definition float_exponent :: "rat \<Rightarrow> int" where
  "float_exponent x =
     (if 1 \<le> \<bar>x\<bar> then int (bit_length \<lfloor>\<bar>x\<bar>\<rfloor>) - 1
      else - int (bit_length (\<lceil>1 / \<bar>x\<bar>\<rceil> - 1)))"

text \<open>The nearest integer, a tie going to the even one.\<close>

definition round_half_even :: "rat \<Rightarrow> int" where
  "round_half_even q =
     (let f = \<lfloor>q\<rfloor>; r = q - of_int f
      in if r < 1 / 2 then f
         else if 1 / 2 < r then f + 1
         else if even f then f else f + 1)"

text \<open>The distance between neighbouring doubles around \<open>x\<close>: 53 significant bits, and
  the fixed step \<open>2 ^ - 1074\<close> of the subnormal numbers below \<open>2 ^ - 1022\<close>.\<close>

definition ulp :: "rat \<Rightarrow> rat" where
  "ulp x =
     (let e = max (float_exponent x) (- 1022) - 52
      in if 0 \<le> e then 2 ^ nat e else 1 / 2 ^ nat (- e))"

text \<open>Round to nearest, ties to even, with no bound on the exponent.\<close>

definition round_double :: "rat \<Rightarrow> rat" where
  "round_double x = (if x = 0 then 0 else of_int (round_half_even (x / ulp x)) * ulp x)"

text \<open>A Python float; \<open>Finite 0\<close> is both zeros.\<close>

datatype pyfloat = Finite rat | PosInf | NegInf | NaN

text \<open>The float of an exact value: the nearest double, or an infinity when that leaves
  the finite range, which ends below \<open>2 ^ 1024\<close>: when its binary exponent is 1024 or
  more.\<close>

definition to_float :: "rat \<Rightarrow> pyfloat" where
  "to_float x =
     (let r = round_double x
      in if r \<noteq> 0 \<and> 1024 \<le> float_exponent r then (if 0 < r then PosInf else NegInf)
         else Finite r)"




subsection \<open>Stage 1: \<open>get_commits\<close> (lines 61 to 98)\<close>

text \<open>\<open>commit['commit']['author']\<close>, when it is an object.\<close>

record author_block =
  author_name :: string
  author_date :: cal_date

text \<open>A commit record: \<open>commit['commit']['message']\<close> and \<open>commit['commit']['author']\<close>,
  which is \<open>None\<close> when the JSON has \<open>null\<close> there.\<close>

record commit =
  message :: string
  author :: "author_block option"

text \<open>The four branches of lines 80 to 94.\<close>

definition classify :: "string \<Rightarrow> string \<Rightarrow> state \<Rightarrow> state" where
  "classify msg a st =
     (if str_in ''fix'' msg then
        with_contributor a (\<lambda>c. c\<lparr>bug_fixes := bug_fixes c + 1\<rparr>)
          (with_contributor a (\<lambda>c. c\<lparr>kpi := kpi c + 5 / 2\<rparr>)
            (with_stats (\<lambda>s. s\<lparr>stat_fix := stat_fix s + 1\<rparr>) st))
      else if str_in ''add'' msg \<or> str_in ''enhancement'' msg then
        with_contributor a (\<lambda>c. c\<lparr>add_commits := add_commits c + 1\<rparr>)
          (with_contributor a (\<lambda>c. c\<lparr>kpi := kpi c + 2\<rparr>)
            (with_stats (\<lambda>s. s\<lparr>stat_add := stat_add s + 1\<rparr>) st))
      else if str_in ''refactor'' msg then
        with_contributor a (\<lambda>c. c\<lparr>refactor_commits := refactor_commits c + 1\<rparr>)
          (with_contributor a (\<lambda>c. c\<lparr>kpi := kpi c + 1\<rparr>)
            (with_stats (\<lambda>s. s\<lparr>stat_refactor := stat_refactor s + 1\<rparr>) st))
      else
        with_contributor a (\<lambda>c. c\<lparr>kpi := kpi c + 1\<rparr>)
          (with_stats (\<lambda>s. s\<lparr>other_commits := other_commits s + 1\<rparr>) st))"

text \<open>The body of the loop, lines 75 to 98. Line 76 picks the name or \<open>'Unknown'\<close>;
  line 77 subscripts \<open>commit['commit']['author']\<close> again, which raises \<open>TypeError\<close>
  when it is \<open>None\<close>, before anything has been counted.\<close>

definition commit_body :: "state \<Rightarrow> commit \<Rightarrow> py_error + state" where
  "commit_body st c =
     (let msg = lower (message c);
          a = (case author c of Some b \<Rightarrow> author_name b | None \<Rightarrow> ''Unknown'')
      in case author c of
           None \<Rightarrow> Inl TypeError
         | Some b \<Rightarrow>
             (let date = author_date b;
                  st1 = classify msg a st;
                  st2 = with_contributor a (\<lambda>c. c\<lparr>total_actions := total_actions c + 1\<rparr>) st1
              in Inr (with_contributor a
                        (\<lambda>c. c\<lparr>active_days := finsert date (active_days c)\<rparr>) st2)))"

fun commits_loop :: "state \<Rightarrow> commit list \<Rightarrow> outcome" where
  "commits_loop st [] = Returned st"
| "commits_loop st (c # cs) =
     (case commit_body st c of
        Inl e \<Rightarrow> Raised e st
      | Inr st' \<Rightarrow> commits_loop st' cs)"

definition get_commits :: "state \<Rightarrow> commit response \<Rightarrow> outcome" where
  "get_commits st commits =
     (case commits of
        NotList v \<Rightarrow> Returned (st\<lparr>printed := printed st @ [CommitsApiError v]\<rparr>)
      | Records cs \<Rightarrow> commits_loop st cs)"

subsection \<open>Step 4: \<open>calculate_kpi\<close> (lines 201 to 208)\<close>


subsection \<open>Stage 2: \<open>get_issues\<close> (lines 103 to 127)\<close>

text \<open>\<open>timedelta(days=7)\<close>, in microseconds.\<close>

definition week :: int where
  "week = 7 * 86400 * 1000000"

text \<open>An issue record: \<open>created_at\<close> and \<open>closed_at\<close> as instants (\<open>closed_at\<close> is
  \<open>None\<close> for JSON \<open>null\<close>), the \<open>name\<close> of every label, and \<open>issue['user']['login']\<close>.\<close>

record issue =
  created_at :: instant
  closed_at :: "instant option"
  labels :: "string list"
  user_login :: string

definition issue_body :: "instant \<Rightarrow> state \<Rightarrow> issue \<Rightarrow> state" where
  "issue_body now st i =
     (let created = created_at i;
          is_bug = list_ex (\<lambda>l. lower l = ''bug'') (labels i);
          st1 = (if created \<ge> now - week
                 then with_stats (\<lambda>s. s\<lparr>issues_opened := issues_opened s + 1\<rparr>) st
                 else st)
      in case closed_at i of
           None \<Rightarrow> st1
         | Some closed_time \<Rightarrow>
             if closed_time \<ge> now - week then
               (let st2 = with_stats (\<lambda>s. s\<lparr>issues_closed := issues_closed s + 1\<rparr>) st1;
                    st3 = (if is_bug
                           then with_stats (\<lambda>s. s\<lparr>bugs_closed := bugs_closed s + 1\<rparr>) st2
                           else st2);
                    a = user_login i;
                    st4 = with_contributor a (\<lambda>c. c\<lparr>kpi := kpi c + 2\<rparr>) st3
                in with_contributor a (\<lambda>c. c\<lparr>total_actions := total_actions c + 1\<rparr>) st4)
             else st1)"

fun issues_loop :: "instant \<Rightarrow> state \<Rightarrow> issue list \<Rightarrow> state" where
  "issues_loop now st [] = st"
| "issues_loop now st (i # is) = issues_loop now (issue_body now st i) is"

text \<open>What a \<open>for\<close> loop iterates over when the value is not a list: the characters of a
  string and the keys of an object, each of them a string; anything else is not
  iterable.\<close>

fun py_iter :: "nonlist \<Rightarrow> py_error + string list" where
  "py_iter Null = Inl TypeError"
| "py_iter (Boolean b) = Inl TypeError"
| "py_iter (Number n) = Inl TypeError"
| "py_iter (Text s) = Inr (map (\<lambda>c. [c]) s)"
| "py_iter (Object kvs) = Inr (map fst kvs)"

text \<open>\<open>get_issues\<close> has no \<open>isinstance\<close> test: the loop of line 110 runs on whatever
  the response is. On a string \<open>x\<close>, the first statement of the body, \<open>x['created_at']\<close>,
  raises \<open>TypeError\<close>.\<close>

definition get_issues :: "instant \<Rightarrow> state \<Rightarrow> issue response \<Rightarrow> outcome" where
  "get_issues now st issues =
     (case issues of
        Records is \<Rightarrow> Returned (issues_loop now st is)
      | NotList v \<Rightarrow>
          (case py_iter v of
             Inl e \<Rightarrow> Raised e st
           | Inr [] \<Rightarrow> Returned st
           | Inr (x # xs) \<Rightarrow> Raised TypeError st))"

subsection \<open>Stage 3: \<open>get_project_tasks\<close> (lines 132 to 196)\<close>

text \<open>One node of \<open>item['fieldValues']['nodes']\<close>: \<open>field.get('name')\<close> and
  \<open>field.get('text')\<close>.\<close>

record field_value =
  field_name :: "string option"
  field_text :: "string option"

text \<open>\<open>item['content']\<close> when it is an object: its \<open>title\<close>, if it has one.\<close>

record content_block =
  content_title :: "string option"

record project_item =
  updatedAt :: instant
  content :: "content_block option"
  fieldValues :: "field_value list"

text \<open>The nodes of the board when line 168 finds them, the exception it raises when it
  does not.\<close>

datatype project_response = Nodes "project_item list" | NoNodes py_error

text \<open>\<open>if name:\<close> on an optional string: \<open>None\<close> and the empty string are false.\<close>

fun truthy :: "string option \<Rightarrow> bool" where
  "truthy None = False"
| "truthy (Some s) = (s \<noteq> [])"

text \<open>The string inside an optional string that \<open>truthy\<close> has accepted.\<close>

fun str_value :: "string option \<Rightarrow> string" where
  "str_value None = []"
| "str_value (Some s) = s"

text \<open>Lines 176 to 183.\<close>

fun status_loop :: "string list \<Rightarrow> field_value list \<Rightarrow> string list" where
  "status_loop status_list [] = status_list"
| "status_loop status_list (field # rest) =
     (let name = field_name field;
          text_value = field_text field
      in if truthy name then status_loop (status_list @ [lower (str_value name)]) rest
         else if truthy text_value
         then status_loop (status_list @ [lower (str_value text_value)]) rest
         else status_loop status_list rest)"

definition minute :: int where
  "minute = 60 * 1000000"

definition in_window :: "instant \<Rightarrow> instant \<Rightarrow> bool" where
  "in_window now t = (t \<ge> now - week)"

definition task_body :: "instant \<Rightarrow> state \<Rightarrow> project_item \<Rightarrow> state" where
  "task_body now st item =
     (let upd = updatedAt item;
          ttl = (case content item of
                   None \<Rightarrow> ''Untitled''
                 | Some c \<Rightarrow> (case content_title c of None \<Rightarrow> ''Untitled'' | Some t \<Rightarrow> t));
          status_list = status_loop [] (fieldValues item)
      in if in_window now upd then
           (let st1 = (if list_ex (\<lambda>s. s \<in> set [''done'', ''completed'']) status_list
                       then with_stats (\<lambda>s. s\<lparr>tasks_completed := tasks_completed s + 1\<rparr>) st
                       else st)
            in st1\<lparr>project_tasks := project_tasks st1 @
                 [\<lparr>title = ttl,
                   status = (case status_list of [] \<Rightarrow> ''unknown'' | s # _ \<Rightarrow> s),
                   updated = upd div minute\<rparr>]\<rparr>)
         else st)"

fun tasks_loop :: "instant \<Rightarrow> state \<Rightarrow> project_item list \<Rightarrow> state" where
  "tasks_loop now st [] = st"
| "tasks_loop now st (item # items) = tasks_loop now (task_body now st item) items"

text \<open>The \<open>try\<close> of line 167 catches everything, so the stage always returns.\<close>

definition get_project_tasks :: "instant \<Rightarrow> state \<Rightarrow> project_response \<Rightarrow> state" where
  "get_project_tasks now st data =
     (case data of
        NoNodes e \<Rightarrow> st\<lparr>printed := printed st @ [ProjectTasksError e]\<rparr>
      | Nodes items \<Rightarrow> tasks_loop now st items)"

subsection \<open>Sequences of stages\<close>

datatype stage =
    Commits "commit response"
  | Issues "issue response"
  | Tasks project_response

fun run_stage :: "instant \<Rightarrow> state \<Rightarrow> stage \<Rightarrow> outcome" where
  "run_stage now st (Commits r) = get_commits st r"
| "run_stage now st (Issues r) = get_issues now st r"
| "run_stage now st (Tasks r) = Returned (get_project_tasks now st r)"

text \<open>An exception that leaves a stage ends the run (lines 336 to 344 catch nothing).\<close>

fun run_stages :: "instant \<Rightarrow> state \<Rightarrow> stage list \<Rightarrow> outcome" where
  "run_stages now st [] = Returned st"
| "run_stages now st (s # ss) =
     (case run_stage now st s of
        Returned st' \<Rightarrow> run_stages now st' ss
      | Raised e st' \<Rightarrow> Raised e st')"

subsection \<open>Step 4, continued: \<open>get_previous_week_kpi\<close> (lines 213 to 234)\<close>

definition is_digit :: "char \<Rightarrow> bool" where
  "is_digit c = (c \<in> set ''0123456789'')"

text \<open>\<open>re.findall(r'\d+', s)\<close>: the maximal runs of digits of \<open>s\<close>, left to right;
  \<open>run\<close> is the run being read.\<close>

fun digit_runs :: "string \<Rightarrow> string \<Rightarrow> string list" where
  "digit_runs run [] = (if run = [] then [] else [run])"
| "digit_runs run (c # cs) =
     (if is_digit c then digit_runs (run @ [c]) cs
      else (if run = [] then [] else [run]) @ digit_runs [] cs)"

definition digit_value :: "char \<Rightarrow> int" where
  "digit_value c =
     (case map_of (zip ''0123456789'' [0, 1, 2, 3, 4, 5, 6, 7, 8, 9]) c of
        None \<Rightarrow> 0
      | Some d \<Rightarrow> d)"

text \<open>\<open>int(s)\<close> on a string of digits.\<close>

definition py_int :: "string \<Rightarrow> int" where
  "py_int s = foldl (\<lambda>n c. 10 * n + digit_value c) 0 s"

text \<open>\<open>int(re.findall(r'\d+', fname)[-1])\<close>: subscripting the empty list raises.\<close>

definition week_num :: "string \<Rightarrow> py_error + int" where
  "week_num fname =
     (case digit_runs [] fname of
        [] \<Rightarrow> Inl IndexError
      | r # rs \<Rightarrow> Inr (py_int (last (r # rs))))"

text \<open>The pattern \<open>\*\*(\d+(?:\.\d+)?)\*\*\<close> matched at the start of \<open>s\<close>; the result
  is group 1. Both \<open>\d+\<close> are greedy, and giving back a digit never helps: the character
  after a shorter run is a digit, which neither \<open>\.\<close> nor \<open>\*\<close> matches.\<close>

definition match_bold :: "string \<Rightarrow> string option" where
  "match_bold s =
     (if startswith s ''**'' then
        (let r = drop 2 s;
             whole = takeWhile is_digit r;
             r1 = dropWhile is_digit r;
             frac = takeWhile is_digit (drop 1 r1);
             r2 = dropWhile is_digit (drop 1 r1)
         in if whole = [] then None
            else if startswith r1 ''.'' \<and> frac \<noteq> [] \<and> startswith r2 ''**''
            then Some (whole @ ''.'' @ frac)
            else if startswith r1 ''**'' then Some whole
            else None)
      else None)"

text \<open>\<open>re.search\<close>: the leftmost position where the pattern matches.\<close>

fun search_bold :: "string \<Rightarrow> string option" where
  "search_bold [] = None"
| "search_bold (c # cs) =
     (case match_bold (c # cs) of
        Some g \<Rightarrow> Some g
      | None \<Rightarrow> search_bold cs)"

text \<open>The number that a decimal \<open>g\<close> of the shape \<open>\d+(\.\d+)?\<close> denotes.\<close>

definition decimal_value :: "string \<Rightarrow> rat" where
  "decimal_value g =
     (let whole = takeWhile is_digit g;
          frac = drop 1 (dropWhile is_digit g)
      in of_int (py_int whole) + of_int (py_int frac) / 10 ^ length frac)"

text \<open>\<open>float(g)\<close> for such a \<open>g\<close>: the double nearest to that number.\<close>

definition py_float :: "string \<Rightarrow> pyfloat" where
  "py_float g = to_float (decimal_value g)"

text \<open>Lines 229 to 233 on the lines of one file: \<open>Some\<close> is the \<open>return\<close> of line 233,
  \<open>None\<close> the end of the file.\<close>

fun scan_lines :: "string list \<Rightarrow> pyfloat option" where
  "scan_lines [] = None"
| "scan_lines (line # rest) =
     (if str_in ''This Week KPI:'' line then
        (case search_bold line of
           Some g \<Rightarrow> Some (py_float g)
         | None \<Rightarrow> scan_lines rest)
      else scan_lines rest)"

text \<open>The directory \<open>reports/\<close>: its file names, each with the lines of the file.\<close>

type_synonym reports_dir = "(string \<times> string list) list"

definition file_lines :: "reports_dir \<Rightarrow> string \<Rightarrow> string list" where
  "file_lines dir fname = (case map_of dir fname of None \<Rightarrow> [] | Some ls \<Rightarrow> ls)"

text \<open>Lines 219 to 222.\<close>

definition report_files :: "reports_dir \<Rightarrow> string list" where
  "report_files dir =
     rev (sort (filter (\<lambda>f. startswith f ''Weekly_Report_Week_'') (map fst dir)))"

text \<open>The loop of lines 225 to 233, and the \<open>return 0\<close> of line 234 when it ends; the
  integer 0 is written \<open>Finite 0\<close>.\<close>

fun scan_reports :: "reports_dir \<Rightarrow> int \<Rightarrow> string list \<Rightarrow> py_error + pyfloat" where
  "scan_reports dir current_week [] = Inr (Finite 0)"
| "scan_reports dir current_week (fname # rest) =
     (case week_num fname of
        Inl e \<Rightarrow> Inl e
      | Inr w \<Rightarrow>
          if w < current_week then
            (case scan_lines (file_lines dir fname) of
               Some v \<Rightarrow> Inr v
             | None \<Rightarrow> scan_reports dir current_week rest)
          else scan_reports dir current_week rest)"

text \<open>\<open>reports\<close> is \<open>None\<close> when the directory does not exist; \<open>current_week\<close> is
  \<open>now.isocalendar()[1]\<close>.\<close>

definition get_previous_week_kpi :: "reports_dir option \<Rightarrow> int \<Rightarrow> py_error + pyfloat" where
  "get_previous_week_kpi reports current_week =
     (case reports of
        None \<Rightarrow> Inr (Finite 0)
      | Some dir \<Rightarrow> scan_reports dir current_week (report_files dir))"

subsection \<open>Step 5: \<open>assign_badges\<close> (lines 239 to 275)\<close>

text \<open>\<open>max(xs, key=key, default=None)\<close>: the first element whose key is maximal.\<close>

fun max_loop :: "('a \<Rightarrow> 'k::linorder) \<Rightarrow> 'a \<Rightarrow> 'a list \<Rightarrow> 'a" where
  "max_loop key best [] = best"
| "max_loop key best (x # xs) = max_loop key (if key x > key best then x else best) xs"

definition py_max :: "('a \<Rightarrow> 'k::linorder) \<Rightarrow> 'a list \<Rightarrow> 'a option" where
  "py_max key xs = (case xs of [] \<Rightarrow> None | x # rest \<Rightarrow> Some (max_loop key x rest))"

text \<open>\<open>badges\<close> is a \<open>defaultdict(list)\<close>; \<open>badges[k].append(b)\<close>.\<close>

type_synonym badge_map = "string \<rightharpoonup> string list"

definition append_badge :: "string \<Rightarrow> string \<Rightarrow> badge_map \<Rightarrow> badge_map" where
  "append_badge k b badges =
     badges(k \<mapsto> (case badges k of None \<Rightarrow> [] | Some bs \<Rightarrow> bs) @ [b])"

text \<open>Lines 271 to 273.\<close>

fun consistent_loop :: "badge_map \<Rightarrow> (string \<times> contributor) list \<Rightarrow> badge_map" where
  "consistent_loop badges [] = badges"
| "consistent_loop badges ((k, d) # rest) =
     consistent_loop
       (if fcard (active_days d) \<ge> 3 then append_badge k ''Consistent Contributor'' badges
        else badges)
       rest"

text \<open>A pair \<open>(name, data)\<close> is a non-empty tuple, so \<open>if top:\<close> (\<open>top_item\<close> here) asks only whether
  \<open>max\<close> returned an item.\<close>

definition assign_badges :: "state \<Rightarrow> badge_map" where
  "assign_badges st =
     (let cs = contributors st in
      if cs = [] then Map.empty
      else
        (let b1 = (case py_max (\<lambda>x. kpi (snd x)) cs of
                     None \<Rightarrow> Map.empty
                   | Some top_item \<Rightarrow> append_badge (fst top_item) ''Top Contributor'' Map.empty);
             b2 = (case py_max (\<lambda>x. bug_fixes (snd x)) cs of
                     None \<Rightarrow> b1
                   | Some bug \<Rightarrow>
                       if bug_fixes (snd bug) > 0
                       then append_badge (fst bug) ''Bug Squasher'' b1 else b1);
             b3 = (case py_max (\<lambda>x. total_actions (snd x)) cs of
                     None \<Rightarrow> b2
                   | Some active \<Rightarrow> append_badge (fst active) ''Most Active'' b2);
             b4 = (case py_max (\<lambda>x. add_commits (snd x)) cs of
                     None \<Rightarrow> b3
                   | Some feature \<Rightarrow>
                       if add_commits (snd feature) > 0
                       then append_badge (fst feature) ''Feature Creator'' b3 else b3);
             b5 = (case py_max (\<lambda>x. refactor_commits (snd x)) cs of
                     None \<Rightarrow> b4
                   | Some refactor \<Rightarrow>
                       if refactor_commits (snd refactor) > 0
                       then append_badge (fst refactor) ''Code Refactorer'' b4 else b4)
         in consistent_loop b5 cs))"

text \<open>Contributor \<open>k\<close> holds badge \<open>b\<close>.\<close>

definition has_badge :: "badge_map \<Rightarrow> string \<Rightarrow> string \<Rightarrow> bool" where
  "has_badge badges k b = (case badges k of None \<Rightarrow> False | Some bs \<Rightarrow> b \<in> set bs)"

subsection \<open>Step 6: the lines of \<open>generate_markdown_report\<close> that the next run reads\<close>

definition digit_char :: "nat \<Rightarrow> char" where
  "digit_char d = ''0123456789'' ! d"

text \<open>\<open>str(n)\<close> for a natural number.\<close>

function str_nat :: "nat \<Rightarrow> string" where
  "str_nat n = (if n < 10 then [digit_char n] else str_nat (n div 10) @ [digit_char (n mod 10)])"
  by pat_completeness auto
termination
  by (relation "measure id") auto

declare str_nat.simps [simp del]

text \<open>\<open>str(i)\<close> for an integer, as an f-string formats it.\<close>

definition str_int :: "int \<Rightarrow> string" where
  "str_int i = (if i < 0 then ''-'' @ str_nat (nat (- i)) else str_nat (nat i))"

text \<open>\<open>str(x)\<close> for a float that is a non-negative multiple of one half below \<open>2 ^ 52\<close>,
  where the shortest decimal that reads back as \<open>x\<close> is the integer part followed by
  \<open>.0\<close> or \<open>.5\<close>. Other floats (exponent notation, rounding) are outside the model:
  \<open>None\<close>.\<close>

definition float_repr :: "rat \<Rightarrow> string option" where
  "float_repr x =
     (if 0 \<le> x \<and> x < 2 ^ 52 \<and> of_int \<lfloor>2 * x\<rfloor> = 2 * x
      then Some (str_nat (nat \<lfloor>x\<rfloor>) @ ''.'' @ (if of_int \<lfloor>x\<rfloor> = x then ''0'' else ''5''))
      else None)"

text \<open>Line 284, without the directory.\<close>

definition report_filename :: "int \<Rightarrow> string" where
  "report_filename week_number = ''Weekly_Report_Week_'' @ str_int week_number @ ''.md''"

text \<open>Line 308: \<open>f.write(f"- This Week KPI: **{kpi_score}**\n")\<close>, where \<open>kpi_score\<close> is
  the float \<open>calculate_kpi()\<close> returned.\<close>

definition kpi_line :: "rat \<Rightarrow> string option" where
  "kpi_line kpi_score =
     map_option (\<lambda>s. ''- This Week KPI: **'' @ s @ ''**'' @ [CHR 0x0A]) (float_repr kpi_score)"

subsection \<open>Predicates on states\<close>

definition nonneg_stats :: "global_stats \<Rightarrow> bool" where
  "nonneg_stats s =
     (0 \<le> stat_add s \<and> 0 \<le> stat_fix s \<and> 0 \<le> stat_refactor s \<and> 0 \<le> other_commits s
      \<and> 0 \<le> issues_opened s \<and> 0 \<le> issues_closed s \<and> 0 \<le> bugs_closed s
      \<and> 0 \<le> tasks_completed s)"

definition nonneg_contributor :: "contributor \<Rightarrow> bool" where
  "nonneg_contributor c =
     (0 \<le> kpi c \<and> 0 \<le> bug_fixes c \<and> 0 \<le> total_actions c \<and> 0 \<le> add_commits c
      \<and> 0 \<le> refactor_commits c)"

text \<open>Every global counter and every numeric field of every contributor is at least 0.\<close>

definition nonneg :: "state \<Rightarrow> bool" where
  "nonneg st =
     (nonneg_stats (stats st)
      \<and> list_all (\<lambda>kc. nonneg_contributor (snd kc)) (contributors st))"

subsection \<open>Predicates on the report store\<close>




section \<open>Properties\<close>

subsection \<open>The contributor dictionary\<close>

lemma map_of_update_entry_same:
  "map_of (update_entry f k cs) k = Some (f (contributor_of cs k))"
  by (induction cs) (auto simp: contributor_of_def)

lemma map_of_update_entry_other:
  "k' \<noteq> k \<Longrightarrow> map_of (update_entry f k cs) k' = map_of cs k'"
  by (induction cs) auto

lemma contributor_of_update_entry:
  "contributor_of (update_entry f k cs) k' =
     (if k' = k then f (contributor_of cs k) else contributor_of cs k')"
  by (simp add: contributor_of_def map_of_update_entry_same map_of_update_entry_other)

lemma keys_update_entry:
  "map fst (update_entry f k cs) =
     (if k \<in> fst ` set cs then map fst cs else map fst cs @ [k])"
proof (induction cs)
  case Nil
  show ?case by simp
next
  case (Cons kv cs)
  obtain k' v where kv: "kv = (k', v)" by (cases kv)
  show ?case using Cons.IH by (auto simp: kv)
qed

lemma distinct_update_entry:
  "distinct (map fst cs) \<Longrightarrow> distinct (map fst (update_entry f k cs))"
  by (simp add: keys_update_entry)

lemma list_all_update_entry:
  assumes "list_all (\<lambda>kc. P (snd kc)) cs"
    and "P default_contributor"
    and "\<And>c. P c \<Longrightarrow> P (f c)"
  shows "list_all (\<lambda>kc. P (snd kc)) (update_entry f k cs)"
  using assms by (induction cs) auto

lemma with_contributor_simps [simp]:
  "contributors (with_contributor k f st) = update_entry f k (contributors st)"
  "stats (with_contributor k f st) = stats st"
  "project_tasks (with_contributor k f st) = project_tasks st"
  "printed (with_contributor k f st) = printed st"
  by (simp_all add: with_contributor_def)

lemma with_stats_simps [simp]:
  "contributors (with_stats g st) = contributors st"
  "stats (with_stats g st) = g (stats st)"
  "project_tasks (with_stats g st) = project_tasks st"
  "printed (with_stats g st) = printed st"
  by (simp_all add: with_stats_def)

subsection \<open>Floats that are exact\<close>

text \<open>A multiple of one half below \<open>2 ^ 52\<close> in absolute value is a double: rounding
  leaves it as it is.\<close>

lemma bit_length_le: "n < 2 ^ k \<Longrightarrow> bit_length n \<le> k"
proof (induction k arbitrary: n)
  case 0
  then show ?case by (subst bit_length.simps) simp
next
  case (Suc k)
  show ?case
  proof (cases "n \<le> 0")
    case True
    then show ?thesis by (subst bit_length.simps) simp
  next
    case False
    from Suc.prems have "n div 2 < 2 ^ k" by simp
    then have "bit_length (n div 2) \<le> k" by (rule Suc.IH)
    with False show ?thesis by (subst bit_length.simps) simp
  qed
qed

lemma float_exponent_le:
  assumes "\<bar>x\<bar> < 2 ^ 52"
  shows "float_exponent x \<le> 51"
proof (cases "1 \<le> \<bar>x\<bar>")
  case True
  from assms have "\<lfloor>\<bar>x\<bar>\<rfloor> < 2 ^ 52" by (simp add: floor_less_iff)
  then have "bit_length \<lfloor>\<bar>x\<bar>\<rfloor> \<le> 52" by (rule bit_length_le)
  with True show ?thesis by (simp add: float_exponent_def)
next
  case False
  then show ?thesis by (simp add: float_exponent_def)
qed

lemma round_half_even_of_int: "round_half_even (of_int m) = m"
  by (simp add: round_half_even_def)

lemma round_double_half_integer:
  assumes "\<bar>x\<bar> < 2 ^ 52" and "of_int \<lfloor>2 * x\<rfloor> = 2 * x"
  shows "round_double x = x"
proof (cases "x = 0")
  case True
  then show ?thesis by (simp add: round_double_def)
next
  case False
  define k where "k = nat (52 - max (float_exponent x) (- 1022))"
  have "max (float_exponent x) (- 1022) \<le> 51"
    using float_exponent_le [OF assms(1)] by simp
  then have k: "1 \<le> k" and neg: "\<not> 0 \<le> max (float_exponent x) (- 1022) - 52"
    and kk: "nat (- (max (float_exponent x) (- 1022) - 52)) = k"
    by (simp_all add: k_def)
  have u: "ulp x = 1 / 2 ^ k"
    using neg kk by (simp add: ulp_def Let_def)
  obtain j where j: "k = Suc j" using k by (cases k) auto
  have "x / ulp x = (2 * x) * 2 ^ j"
    by (simp add: u j)
  also have "\<dots> = of_int (\<lfloor>2 * x\<rfloor> * 2 ^ j)"
    by (simp add: assms(2))
  finally have q: "x / ulp x = of_int (\<lfloor>2 * x\<rfloor> * 2 ^ j)" .
  have "round_double x = of_int (\<lfloor>2 * x\<rfloor> * 2 ^ j) * ulp x"
    using False by (simp add: round_double_def q round_half_even_of_int del: of_int_mult of_int_power)
  also have "\<dots> = (2 * x) * 2 ^ j * ulp x"
    by (simp add: assms(2))
  also have "\<dots> = x"
    by (simp add: u j)
  finally show ?thesis .
qed

lemma to_float_half_integer:
  assumes "\<bar>x\<bar> < 2 ^ 52" and "of_int \<lfloor>2 * x\<rfloor> = 2 * x"
  shows "to_float x = Finite x"
proof -
  have "float_exponent x \<le> 51" by (rule float_exponent_le [OF assms(1)])
  then show ?thesis
    by (simp add: to_float_def round_double_half_integer [OF assms] Let_def)
qed




subsection \<open>The global KPI\<close>




subsection \<open>The commit classifier\<close>

text \<open>What the four rules do to a commit whose author block is present: the first rule
  that the lowercased message meets moves one global counter by one and adds its weight
  and its count to the author's record; the total actions grow by one and the commit's
  date joins the active days; no other contributor changes, and the loop goes on with
  the next commit. The kpi is taken below \<open>2 ^ 51\<close>, where the sum is exact as a float
  too.\<close>

lemma commit_classification:
  assumes "author c = Some b"
    and "0 \<le> kpi (contributor_of (contributors st) (author_name b))"
    and "kpi (contributor_of (contributors st) (author_name b)) < 2 ^ 51"
    and "of_int \<lfloor>2 * kpi (contributor_of (contributors st) (author_name b))\<rfloor>
           = 2 * kpi (contributor_of (contributors st) (author_name b))"
  shows "\<exists>st'. commit_body st c = Inr st'
    \<and> commits_loop st (c # cs) = commits_loop st' cs
    \<and> (let msg = lower (message c);
            old = contributor_of (contributors st) (author_name b);
            new = contributor_of (contributors st') (author_name b)
        in (if str_in ''fix'' msg then
              stats st' = (stats st)\<lparr>stat_fix := stat_fix (stats st) + 1\<rparr>
              \<and> kpi new = kpi old + 5 / 2 \<and> bug_fixes new = bug_fixes old + 1
              \<and> add_commits new = add_commits old
              \<and> refactor_commits new = refactor_commits old
            else if str_in ''add'' msg \<or> str_in ''enhancement'' msg then
              stats st' = (stats st)\<lparr>stat_add := stat_add (stats st) + 1\<rparr>
              \<and> kpi new = kpi old + 2 \<and> add_commits new = add_commits old + 1
              \<and> bug_fixes new = bug_fixes old
              \<and> refactor_commits new = refactor_commits old
            else if str_in ''refactor'' msg then
              stats st' = (stats st)\<lparr>stat_refactor := stat_refactor (stats st) + 1\<rparr>
              \<and> kpi new = kpi old + 1 \<and> refactor_commits new = refactor_commits old + 1
              \<and> bug_fixes new = bug_fixes old \<and> add_commits new = add_commits old
            else
              stats st' = (stats st)\<lparr>other_commits := other_commits (stats st) + 1\<rparr>
              \<and> kpi new = kpi old + 1 \<and> bug_fixes new = bug_fixes old
              \<and> add_commits new = add_commits old
              \<and> refactor_commits new = refactor_commits old)
          \<and> total_actions new = total_actions old + 1
          \<and> active_days new = finsert (author_date b) (active_days old))
    \<and> (\<forall>k. k \<noteq> author_name b \<longrightarrow>
          contributor_of (contributors st') k = contributor_of (contributors st) k)
    \<and> project_tasks st' = project_tasks st \<and> printed st' = printed st"
  using assms(1)
  by (simp add: commit_body_def classify_def Let_def contributor_of_update_entry)

lemma commit_body_absent_author: "author c = None \<Longrightarrow> commit_body st c = Inl TypeError"
  by (simp add: commit_body_def)

text \<open>
  C5. A commit whose author block is absent does not reach the classification: line 76
  picks the name \<open>'Unknown'\<close>, and line 77 then reads the date out of the absent block
  and raises \<open>TypeError\<close>. Here it is the only commit of the response; the stage is left
  by the exception, and nothing was attributed to \<open>'Unknown'\<close>.
\<close>

theorem absent_author_raises:
  "get_commits initial_state (Records [\<lparr>message = ''Add parser'', author = None\<rparr>])
     = Raised TypeError initial_state"
  by (simp add: get_commits_def commit_body_def)

text \<open>
  C2. Not every commit record is classified. Of these two commits the first, by alice, is
  a fix-commit and is counted as the rules say. The second has no author block and a
  message that contains "fix": line 77 raises \<open>TypeError\<close> before line 80 is reached, so
  the fix counter stays at 1, nobody's total actions grow, no date is recorded, and the
  stage is left by the exception.
\<close>

theorem absent_author_commit_not_classified:
  "get_commits initial_state
     (Records
        [\<lparr>message = ''Fix login bug, ADD a test'',
          author = Some \<lparr>author_name = ''alice'', author_date = 738000\<rparr>\<rparr>,
         \<lparr>message = ''Fix crash on start'', author = None\<rparr>])
     = Raised TypeError
         \<lparr>stats = initial_stats\<lparr>stat_fix := 1\<rparr>,
          contributors =
            [(''alice'',
              \<lparr>kpi = 5 / 2, bug_fixes = 1, total_actions = 1, add_commits = 0,
               refactor_commits = 0, active_days = {|738000|}\<rparr>)],
          project_tasks = [], printed = []\<rparr>"
  by (simp add: get_commits_def commit_body_def classify_def lower_def lower_char_def
      startswith_def initial_state_def initial_stats_def default_contributor_def
      with_contributor_def with_stats_def)

subsection \<open>The issue aggregator\<close>

text \<open>
  C3. On GitHub's error object, which is not a list, \<open>get_issues\<close> iterates over the
  keys of the object and raises \<open>TypeError\<close> on the first one. The state is the one
  before the stage, and so is the console: nothing was printed.
\<close>

theorem issues_error_object_raises:
  "get_issues now st (NotList (Object [(''message'', JStr ''Bad credentials'')]))
     = Raised TypeError st"
  by (simp add: get_issues_def)

subsection \<open>Counters never go below zero\<close>

lemma nonneg_with_stats:
  "nonneg st \<Longrightarrow> (\<And>s. nonneg_stats s \<Longrightarrow> nonneg_stats (g s)) \<Longrightarrow> nonneg (with_stats g st)"
  by (simp add: nonneg_def)

lemma nonneg_default: "nonneg_contributor default_contributor"
  by (simp add: nonneg_contributor_def default_contributor_def)

lemma nonneg_with_contributor:
  "nonneg st \<Longrightarrow> (\<And>c. nonneg_contributor c \<Longrightarrow> nonneg_contributor (f c))
     \<Longrightarrow> nonneg (with_contributor k f st)"
  by (simp add: nonneg_def list_all_update_entry nonneg_default)

lemma nonneg_classify: "nonneg st \<Longrightarrow> nonneg (classify msg a st)"
  unfolding classify_def
  by (auto intro!: nonneg_with_contributor nonneg_with_stats
      simp: nonneg_contributor_def nonneg_stats_def)

lemma nonneg_commit_body: "nonneg st \<Longrightarrow> commit_body st c = Inr st' \<Longrightarrow> nonneg st'"
  unfolding commit_body_def Let_def
  by (auto split: option.splits intro!: nonneg_with_contributor nonneg_classify
      simp: nonneg_contributor_def)

lemma nonneg_commits_loop: "nonneg st \<Longrightarrow> nonneg (final_state (commits_loop st cs))"
  by (induction cs arbitrary: st) (auto split: sum.splits dest: nonneg_commit_body)

lemma nonneg_issue_body: "nonneg st \<Longrightarrow> nonneg (issue_body now st i)"
  unfolding issue_body_def Let_def
  by (auto split: option.splits intro!: nonneg_with_contributor nonneg_with_stats
      simp: nonneg_contributor_def nonneg_stats_def)

lemma nonneg_issues_loop: "nonneg st \<Longrightarrow> nonneg (issues_loop now st is)"
  by (induction "is" arbitrary: st) (auto simp: nonneg_issue_body)

lemma nonneg_task_body: "nonneg st \<Longrightarrow> nonneg (task_body now st item)"
  unfolding task_body_def Let_def
  by (auto simp: nonneg_def nonneg_stats_def)

lemma nonneg_tasks_loop: "nonneg st \<Longrightarrow> nonneg (tasks_loop now st items)"
  by (induction items arbitrary: st) (auto simp: nonneg_task_body)

lemma nonneg_get_commits: "nonneg st \<Longrightarrow> nonneg (final_state (get_commits st r))"
  by (cases r) (simp_all add: get_commits_def nonneg_commits_loop, simp add: nonneg_def)

lemma nonneg_get_issues: "nonneg st \<Longrightarrow> nonneg (final_state (get_issues now st r))"
  by (cases r) (simp_all add: get_issues_def nonneg_issues_loop split: sum.splits list.splits)

lemma nonneg_get_project_tasks: "nonneg st \<Longrightarrow> nonneg (get_project_tasks now st r)"
  by (cases r) (simp_all add: get_project_tasks_def nonneg_tasks_loop, simp add: nonneg_def)

lemma nonneg_run_stage: "nonneg st \<Longrightarrow> nonneg (final_state (run_stage now st s))"
  by (cases s) (simp_all add: nonneg_get_commits nonneg_get_issues nonneg_get_project_tasks)

lemma nonneg_run_stages: "nonneg st \<Longrightarrow> nonneg (final_state (run_stages now st ss))"
proof (induction ss arbitrary: st)
  case Nil
  then show ?case by simp
next
  case (Cons s ss)
  from Cons.prems have step: "nonneg (final_state (run_stage now st s))"
    by (rule nonneg_run_stage)
  show ?case
  proof (cases "run_stage now st s")
    case (Returned st')
    with step Cons.IH show ?thesis by simp
  next
    case (Raised e st')
    with step show ?thesis by simp
  qed
qed

lemma nonneg_initial: "nonneg initial_state"
  by (simp add: nonneg_def initial_state_def initial_stats_def nonneg_stats_def)

text \<open>
  C9. From the initial state, after any sequence of the three stages on any responses and
  at any time \<open>now\<close>, every global counter and every numeric field of every contributor is
  at least 0. This holds for the state a run ends in and for the state an exception leaves
  behind.
\<close>

theorem counters_never_negative:
  "nonneg (final_state (run_stages now initial_state stages))"
  by (rule nonneg_run_stages [OF nonneg_initial])

theorem counters_never_negative_witness:
  "run_stages 1700000000000000 initial_state
     [Commits (Records
        [\<lparr>message = ''Refactor the parser'',
          author = Some \<lparr>author_name = ''bob'', author_date = 738000\<rparr>\<rparr>]),
      Issues (Records
        [\<lparr>created_at = 1699900000000000, closed_at = Some 1699950000000000,
          labels = [''Bug''], user_login = ''carol''\<rparr>]),
      Tasks (Nodes
        [\<lparr>updatedAt = 1699990000000000, content = None,
          fieldValues = [\<lparr>field_name = Some ''Done'', field_text = None\<rparr>]\<rparr>])]
   = Returned
       \<lparr>stats = \<lparr>stat_add = 0, stat_fix = 0, stat_refactor = 1, other_commits = 0,
                 issues_opened = 1, issues_closed = 1, bugs_closed = 1,
                 tasks_completed = 1\<rparr>,
        contributors =
          [(''bob'', \<lparr>kpi = 1, bug_fixes = 0, total_actions = 1, add_commits = 0,
                     refactor_commits = 1, active_days = {|738000|}\<rparr>),
           (''carol'', \<lparr>kpi = 2, bug_fixes = 0, total_actions = 1, add_commits = 0,
                       refactor_commits = 0, active_days = {||}\<rparr>)],
        project_tasks = [\<lparr>title = ''Untitled'', status = ''done'', updated = 28333166\<rparr>],
        printed = []\<rparr>
   \<and> nonneg (final_state (run_stages 1700000000000000 initial_state
       [Commits (Records
          [\<lparr>message = ''Refactor the parser'',
            author = Some \<lparr>author_name = ''bob'', author_date = 738000\<rparr>\<rparr>]),
        Issues (Records
          [\<lparr>created_at = 1699900000000000, closed_at = Some 1699950000000000,
            labels = [''Bug''], user_login = ''carol''\<rparr>]),
        Tasks (Nodes
          [\<lparr>updatedAt = 1699990000000000, content = None,
            fieldValues = [\<lparr>field_name = Some ''Done'', field_text = None\<rparr>]\<rparr>])]))"
proof (intro conjI)
  show "nonneg (final_state (run_stages 1700000000000000 initial_state
       [Commits (Records
          [\<lparr>message = ''Refactor the parser'',
            author = Some \<lparr>author_name = ''bob'', author_date = 738000\<rparr>\<rparr>]),
        Issues (Records
          [\<lparr>created_at = 1699900000000000, closed_at = Some 1699950000000000,
            labels = [''Bug''], user_login = ''carol''\<rparr>]),
        Tasks (Nodes
          [\<lparr>updatedAt = 1699990000000000, content = None,
            fieldValues = [\<lparr>field_name = Some ''Done'', field_text = None\<rparr>]\<rparr>])]))"
    by (rule counters_never_negative)
qed (simp add: get_commits_def commit_body_def classify_def lower_def lower_char_def
      startswith_def get_issues_def issue_body_def week_def get_project_tasks_def
      task_body_def in_window_def initial_state_def initial_stats_def Let_def
      with_contributor_def with_stats_def default_contributor_def minute_def)

subsection \<open>The project-task aggregator\<close>

lemma tasks_loop_append:
  "tasks_loop now st (xs @ ys) = tasks_loop now (tasks_loop now st xs) ys"
  by (induction xs arbitrary: st) simp_all

lemma task_body_outside: "\<not> in_window now (updatedAt item) \<Longrightarrow> task_body now st item = st"
  by (simp add: task_body_def)

text \<open>
  C7, as the code has it. A board item updated before the trailing seven days begin, that
  is earlier than \<open>now\<close> minus 7 days, leaves the state as it was, whatever its content
  and field values: no task is appended and \<open>tasks_completed\<close> does not move. Wherever
  the item stands in the feed, the stage ends in the state it would end in without the
  item.
\<close>

theorem item_outside_window_ignored:
  assumes "updatedAt item < now - week"
  shows "task_body now st item = st
    \<and> get_project_tasks now st (Nodes (before @ item # after))
        = get_project_tasks now st (Nodes (before @ after))"
proof -
  from assms have out: "\<not> in_window now (updatedAt item)"
    by (simp add: in_window_def)
  have "tasks_loop now st (before @ item # after)
          = tasks_loop now (task_body now (tasks_loop now st before) item) after"
    by (simp add: tasks_loop_append)
  also have "\<dots> = tasks_loop now (tasks_loop now st before) after"
    by (simp add: task_body_outside [OF out])
  also have "\<dots> = tasks_loop now st (before @ after)"
    by (simp add: tasks_loop_append)
  finally show ?thesis
    by (simp add: get_project_tasks_def task_body_outside [OF out])
qed

theorem item_outside_window_ignored_witness:
  "updatedAt \<lparr>updatedAt = 1699000000000000,
              content = Some \<lparr>content_title = Some ''Ship it''\<rparr>,
              fieldValues = [\<lparr>field_name = Some ''Done'', field_text = None\<rparr>]\<rparr>
     < 1700000000000000 - week
   \<and> get_project_tasks 1700000000000000 initial_state
       (Nodes [\<lparr>updatedAt = 1699000000000000,
                content = Some \<lparr>content_title = Some ''Ship it''\<rparr>,
                fieldValues = [\<lparr>field_name = Some ''Done'', field_text = None\<rparr>]\<rparr>])
     = initial_state"
  using item_outside_window_ignored
    [of "\<lparr>updatedAt = 1699000000000000,
          content = Some \<lparr>content_title = Some ''Ship it''\<rparr>,
          fieldValues = [\<lparr>field_name = Some ''Done'', field_text = None\<rparr>]\<rparr>"
        1700000000000000 initial_state "[]" "[]"]
  by (simp add: week_def get_project_tasks_def)

text \<open>
  C7 as the claim words it fails on the other side of the window: line 186 has no upper
  bound. An item stamped one microsecond after \<open>now\<close>, the time at which the window
  ends, is outside the window; it is counted as completed and appended all the same.
\<close>

theorem item_after_now_counted:
  "(1700000000000000::int)
     < updatedAt \<lparr>updatedAt = 1700000000000001,
                  content = Some \<lparr>content_title = Some ''Ship it''\<rparr>,
                  fieldValues = [\<lparr>field_name = Some ''Done'', field_text = None\<rparr>]\<rparr>
   \<and> get_project_tasks 1700000000000000 initial_state
       (Nodes [\<lparr>updatedAt = 1700000000000001,
                content = Some \<lparr>content_title = Some ''Ship it''\<rparr>,
                fieldValues = [\<lparr>field_name = Some ''Done'', field_text = None\<rparr>]\<rparr>])
     = \<lparr>stats = initial_stats\<lparr>tasks_completed := 1\<rparr>,
        contributors = [],
        project_tasks = [\<lparr>title = ''Ship it'', status = ''done'', updated = 28333333\<rparr>],
        printed = []\<rparr>"
  by (simp add: get_project_tasks_def task_body_def in_window_def week_def minute_def
      lower_def lower_char_def initial_state_def initial_stats_def with_stats_def)

subsection \<open>Badges\<close>

lemma has_badge_empty [simp]: "has_badge Map.empty k b = False"
  by (simp add: has_badge_def)

lemma has_badge_append:
  "has_badge (append_badge k b badges) k' b' \<longleftrightarrow> has_badge badges k' b' \<or> (k' = k \<and> b' = b)"
  by (auto simp: has_badge_def append_badge_def split: option.splits)

lemma has_badge_consistent_loop:
  "has_badge (consistent_loop badges cs) k b \<longleftrightarrow>
     has_badge badges k b
     \<or> (b = ''Consistent Contributor'' \<and> (\<exists>d. (k, d) \<in> set cs \<and> 3 \<le> fcard (active_days d)))"
proof (induction cs arbitrary: badges)
  case Nil
  show ?case by simp
next
  case (Cons kd cs)
  obtain k' d' where kd: "kd = (k', d')" by (cases kd)
  show ?case unfolding kd
    by (simp add: Cons.IH has_badge_append) blast
qed

lemma max_loop_mem: "max_loop key best xs \<in> set (best # xs)"
  by (induction xs arbitrary: best) auto

text \<open>
  C6. In a contributor dictionary (its keys are distinct), a contributor holds
  "Consistent Contributor" exactly when the set of active days has at least 3 elements;
  no other field of the contributor, and no other contributor, has a say.
\<close>

theorem consistent_contributor_badge:
  assumes "distinct (map fst (contributors st))" and "(k, d) \<in> set (contributors st)"
  shows "has_badge (assign_badges st) k ''Consistent Contributor'' \<longleftrightarrow> 3 \<le> fcard (active_days d)"
proof -
  from assms(2) have ne: "contributors st \<noteq> []" by auto
  have uniq: "d' = d" if "(k, d') \<in> set (contributors st)" for d'
    using assms that by (meson eq_key_imp_eq_value)
  have "has_badge (assign_badges st) k ''Consistent Contributor'' \<longleftrightarrow>
          (\<exists>d'. (k, d') \<in> set (contributors st) \<and> 3 \<le> fcard (active_days d'))"
    using ne
    by (simp add: assign_badges_def Let_def has_badge_consistent_loop has_badge_append
        split: option.splits)
  also have "\<dots> \<longleftrightarrow> 3 \<le> fcard (active_days d)"
    using uniq assms(2) by blast
  finally show ?thesis .
qed

theorem consistent_contributor_badge_witness:
  "distinct (map fst
     [(''ann'', default_contributor\<lparr>kpi := 9, active_days := {|1, 2|}\<rparr>),
      (''bob'', default_contributor\<lparr>kpi := 3, active_days := {|1, 2, 4|}\<rparr>),
      (''cy'', default_contributor\<lparr>kpi := 1, active_days := {|2, 3, 5, 6|}\<rparr>)])
   \<and> \<not> has_badge (assign_badges (initial_state\<lparr>contributors :=
        [(''ann'', default_contributor\<lparr>kpi := 9, active_days := {|1, 2|}\<rparr>),
         (''bob'', default_contributor\<lparr>kpi := 3, active_days := {|1, 2, 4|}\<rparr>),
         (''cy'', default_contributor\<lparr>kpi := 1, active_days := {|2, 3, 5, 6|}\<rparr>)]\<rparr>))
        ''ann'' ''Consistent Contributor''
   \<and> has_badge (assign_badges (initial_state\<lparr>contributors :=
        [(''ann'', default_contributor\<lparr>kpi := 9, active_days := {|1, 2|}\<rparr>),
         (''bob'', default_contributor\<lparr>kpi := 3, active_days := {|1, 2, 4|}\<rparr>),
         (''cy'', default_contributor\<lparr>kpi := 1, active_days := {|2, 3, 5, 6|}\<rparr>)]\<rparr>))
        ''bob'' ''Consistent Contributor''
   \<and> has_badge (assign_badges (initial_state\<lparr>contributors :=
        [(''ann'', default_contributor\<lparr>kpi := 9, active_days := {|1, 2|}\<rparr>),
         (''bob'', default_contributor\<lparr>kpi := 3, active_days := {|1, 2, 4|}\<rparr>),
         (''cy'', default_contributor\<lparr>kpi := 1, active_days := {|2, 3, 5, 6|}\<rparr>)]\<rparr>))
        ''cy'' ''Consistent Contributor''"
  using
    consistent_contributor_badge
      [of "initial_state\<lparr>contributors :=
        [(''ann'', default_contributor\<lparr>kpi := 9, active_days := {|1, 2|}\<rparr>),
         (''bob'', default_contributor\<lparr>kpi := 3, active_days := {|1, 2, 4|}\<rparr>),
         (''cy'', default_contributor\<lparr>kpi := 1, active_days := {|2, 3, 5, 6|}\<rparr>)]\<rparr>"
        "''ann''" "default_contributor\<lparr>kpi := 9, active_days := {|1, 2|}\<rparr>"]
    consistent_contributor_badge
      [of "initial_state\<lparr>contributors :=
        [(''ann'', default_contributor\<lparr>kpi := 9, active_days := {|1, 2|}\<rparr>),
         (''bob'', default_contributor\<lparr>kpi := 3, active_days := {|1, 2, 4|}\<rparr>),
         (''cy'', default_contributor\<lparr>kpi := 1, active_days := {|2, 3, 5, 6|}\<rparr>)]\<rparr>"
        "''bob''" "default_contributor\<lparr>kpi := 3, active_days := {|1, 2, 4|}\<rparr>"]
    consistent_contributor_badge
      [of "initial_state\<lparr>contributors :=
        [(''ann'', default_contributor\<lparr>kpi := 9, active_days := {|1, 2|}\<rparr>),
         (''bob'', default_contributor\<lparr>kpi := 3, active_days := {|1, 2, 4|}\<rparr>),
         (''cy'', default_contributor\<lparr>kpi := 1, active_days := {|2, 3, 5, 6|}\<rparr>)]\<rparr>"
        "''cy''" "default_contributor\<lparr>kpi := 1, active_days := {|2, 3, 5, 6|}\<rparr>"]
  by (simp add: fcard_finsert_if fcard_fempty)

text \<open>
  C10. When the contributor dictionary is not empty, exactly one name holds
  "Top Contributor" and exactly one name holds "Most Active", and both are keys of the
  dictionary; nothing is asked of the maximum, so this is so when every kpi and every
  action count is 0.
\<close>

theorem top_and_most_active_unique:
  assumes "contributors st \<noteq> []"
  shows "(\<exists>!k. has_badge (assign_badges st) k ''Top Contributor'')
       \<and> (\<exists>!k. has_badge (assign_badges st) k ''Most Active'')
       \<and> {k. has_badge (assign_badges st) k ''Top Contributor''} \<subseteq> fst ` set (contributors st)
       \<and> {k. has_badge (assign_badges st) k ''Most Active''} \<subseteq> fst ` set (contributors st)"
proof -
  obtain x rest where cs: "contributors st = x # rest"
    using assms by (cases "contributors st") auto
  have top: "has_badge (assign_badges st) k ''Top Contributor'' \<longleftrightarrow>
          k = fst (max_loop (\<lambda>x. kpi (snd x)) x rest)" for k
    by (simp add: assign_badges_def Let_def cs py_max_def has_badge_consistent_loop
        has_badge_append)
  have act: "has_badge (assign_badges st) k ''Most Active'' \<longleftrightarrow>
          k = fst (max_loop (\<lambda>x. total_actions (snd x)) x rest)" for k
    by (simp add: assign_badges_def Let_def cs py_max_def has_badge_consistent_loop
        has_badge_append)
  have "fst (max_loop (\<lambda>x. kpi (snd x)) x rest) \<in> fst ` set (contributors st)"
    and "fst (max_loop (\<lambda>x. total_actions (snd x)) x rest) \<in> fst ` set (contributors st)"
    unfolding cs by (rule imageI, rule max_loop_mem)+
  then show ?thesis by (simp add: top act)
qed

theorem top_and_most_active_unique_witness:
  "contributors (initial_state\<lparr>contributors :=
       [(''ann'', default_contributor), (''bob'', default_contributor)]\<rparr>) \<noteq> []
   \<and> (\<exists>!k. has_badge (assign_badges (initial_state\<lparr>contributors :=
       [(''ann'', default_contributor), (''bob'', default_contributor)]\<rparr>)) k
         ''Top Contributor'')
   \<and> (\<exists>!k. has_badge (assign_badges (initial_state\<lparr>contributors :=
       [(''ann'', default_contributor), (''bob'', default_contributor)]\<rparr>)) k
         ''Most Active'')
   \<and> assign_badges (initial_state\<lparr>contributors :=
       [(''ann'', default_contributor), (''bob'', default_contributor)]\<rparr>) ''ann''
       = Some [''Top Contributor'', ''Most Active'']
   \<and> assign_badges (initial_state\<lparr>contributors :=
       [(''ann'', default_contributor), (''bob'', default_contributor)]\<rparr>) ''bob''
       = None"
proof -
  have ne: "contributors (initial_state\<lparr>contributors :=
       [(''ann'', default_contributor), (''bob'', default_contributor)]\<rparr>) \<noteq> []"
    by simp
  have ev: "assign_badges (initial_state\<lparr>contributors :=
       [(''ann'', default_contributor), (''bob'', default_contributor)]\<rparr>) ''ann''
       = Some [''Top Contributor'', ''Most Active'']"
    "assign_badges (initial_state\<lparr>contributors :=
       [(''ann'', default_contributor), (''bob'', default_contributor)]\<rparr>) ''bob''
       = None"
    by (simp_all add: assign_badges_def py_max_def default_contributor_def append_badge_def
        fcard_fempty Let_def)
  from top_and_most_active_unique [OF ne] ne ev show ?thesis by blast
qed

text \<open>The three badges that ask for a positive maximum, for comparison: each goes to the
  first contributor with the greatest count, and to nobody when that count is not
  positive.\<close>

lemma threshold_badges_withheld:
  assumes "contributors st \<noteq> []"
  shows "has_badge (assign_badges st) k ''Bug Squasher'' \<longleftrightarrow>
           (case py_max (\<lambda>x. bug_fixes (snd x)) (contributors st) of
              None \<Rightarrow> False
            | Some m \<Rightarrow> 0 < bug_fixes (snd m) \<and> k = fst m)"
    and "has_badge (assign_badges st) k ''Feature Creator'' \<longleftrightarrow>
           (case py_max (\<lambda>x. add_commits (snd x)) (contributors st) of
              None \<Rightarrow> False
            | Some m \<Rightarrow> 0 < add_commits (snd m) \<and> k = fst m)"
    and "has_badge (assign_badges st) k ''Code Refactorer'' \<longleftrightarrow>
           (case py_max (\<lambda>x. refactor_commits (snd x)) (contributors st) of
              None \<Rightarrow> False
            | Some m \<Rightarrow> 0 < refactor_commits (snd m) \<and> k = fst m)"
proof -
  obtain x rest where cs: "contributors st = x # rest"
    using assms by (cases "contributors st") auto
  show "has_badge (assign_badges st) k ''Bug Squasher'' \<longleftrightarrow>
           (case py_max (\<lambda>x. bug_fixes (snd x)) (contributors st) of
              None \<Rightarrow> False
            | Some m \<Rightarrow> 0 < bug_fixes (snd m) \<and> k = fst m)"
    by (simp add: assign_badges_def Let_def cs py_max_def has_badge_consistent_loop
        has_badge_append)
  show "has_badge (assign_badges st) k ''Feature Creator'' \<longleftrightarrow>
           (case py_max (\<lambda>x. add_commits (snd x)) (contributors st) of
              None \<Rightarrow> False
            | Some m \<Rightarrow> 0 < add_commits (snd m) \<and> k = fst m)"
    by (simp add: assign_badges_def Let_def cs py_max_def has_badge_consistent_loop
        has_badge_append)
  show "has_badge (assign_badges st) k ''Code Refactorer'' \<longleftrightarrow>
           (case py_max (\<lambda>x. refactor_commits (snd x)) (contributors st) of
              None \<Rightarrow> False
            | Some m \<Rightarrow> 0 < refactor_commits (snd m) \<and> k = fst m)"
    by (simp add: assign_badges_def Let_def cs py_max_def has_badge_consistent_loop
        has_badge_append)
qed

lemma bug_squasher_withheld_at_zero:
  assumes "list_all (\<lambda>kc. bug_fixes (snd kc) \<le> 0) (contributors st)"
  shows "\<not> has_badge (assign_badges st) k ''Bug Squasher''"
proof (cases "contributors st")
  case Nil
  then show ?thesis by (simp add: assign_badges_def)
next
  case (Cons x rest)
  have "max_loop (\<lambda>x. bug_fixes (snd x)) x rest \<in> set (contributors st)"
    unfolding Cons by (rule max_loop_mem)
  with assms have "bug_fixes (snd (max_loop (\<lambda>x. bug_fixes (snd x)) x rest)) \<le> 0"
    by (simp add: list_all_iff)
  then show ?thesis
    using threshold_badges_withheld(1) [of st k] by (simp add: Cons py_max_def)
qed

subsection \<open>The previous week's KPI\<close>








subsection \<open>The KPI line, written and read back\<close>

lemma digit_cases: "d < 10 \<Longrightarrow> d \<in> {0, 1, 2, 3, 4, 5, 6, 7, 8, 9::nat}"
  by auto

lemma digit_char_digit: "d < 10 \<Longrightarrow> is_digit (digit_char d)"
  by (drule digit_cases) (auto simp: is_digit_def digit_char_def)

lemma digit_value_digit_char: "d < 10 \<Longrightarrow> digit_value (digit_char d) = int d"
  by (drule digit_cases) (auto simp: digit_value_def digit_char_def)

lemma py_int_snoc: "py_int (s @ [c]) = 10 * py_int s + digit_value c"
  by (simp add: py_int_def)

lemma str_nat_digits: "list_all is_digit (str_nat n)"
proof (induction n rule: str_nat.induct)
  case (1 n)
  show ?case
  proof (cases "n < 10")
    case True
    then show ?thesis by (subst str_nat.simps) (simp add: digit_char_digit)
  next
    case False
    then show ?thesis using "1.IH" by (subst str_nat.simps) (simp add: digit_char_digit)
  qed
qed

lemma str_nat_nonempty: "str_nat n \<noteq> []"
  by (subst str_nat.simps) simp

lemma py_int_str_nat: "py_int (str_nat n) = int n"
proof (induction n rule: str_nat.induct)
  case (1 n)
  show ?case
  proof (cases "n < 10")
    case True
    then show ?thesis
      by (subst str_nat.simps) (simp add: py_int_def digit_value_digit_char)
  next
    case False
    then have "py_int (str_nat n) = 10 * py_int (str_nat (n div 10)) + digit_value (digit_char (n mod 10))"
      by (subst str_nat.simps) (simp add: py_int_snoc)
    also have "\<dots> = 10 * int (n div 10) + int (n mod 10)"
      using False by (simp add: "1.IH" digit_value_digit_char)
    also have "\<dots> = int n" by (simp add: zdiv_int zmod_int)
    finally show ?thesis .
  qed
qed

lemma takeWhile_digits:
  "list_all is_digit ds \<Longrightarrow> \<not> is_digit c \<Longrightarrow> takeWhile is_digit (ds @ c # rest) = ds"
  by (induction ds) auto

lemma dropWhile_digits:
  "list_all is_digit ds \<Longrightarrow> \<not> is_digit c \<Longrightarrow> dropWhile is_digit (ds @ c # rest) = c # rest"
  by (induction ds) auto

lemma digit_runs_digits:
  "list_all is_digit ds \<Longrightarrow> digit_runs run (ds @ rest) = digit_runs (run @ ds) rest"
  by (induction ds arbitrary: run) auto

lemma scan_lines_skip:
  "list_all (\<lambda>x. \<not> str_in ''This Week KPI:'' x) before \<Longrightarrow>
     scan_lines (before @ rest) = scan_lines rest"
  by (induction before) auto

lemma half_integer:
  fixes x :: rat
  assumes "of_int \<lfloor>2 * x\<rfloor> = 2 * x" and "of_int \<lfloor>x\<rfloor> \<noteq> x"
  shows "x = of_int \<lfloor>x\<rfloor> + 1 / 2"
proof -
  define m where "m = \<lfloor>2 * x\<rfloor> - 2 * \<lfloor>x\<rfloor>"
  have mx: "of_int m = 2 * x - 2 * of_int \<lfloor>x\<rfloor>"
    using assms(1) by (simp add: m_def)
  have "of_int \<lfloor>x\<rfloor> < x" using assms(2) of_int_floor_le [of x] by linarith
  then have "(0::rat) < of_int m" by (simp add: mx)
  then have m0: "0 < m" by simp
  have "x < of_int \<lfloor>x\<rfloor> + 1" by linarith
  then have "of_int m < (2::rat)" by (simp add: mx)
  then have "of_int m < (of_int 2 :: rat)" by simp
  then have m2: "m < 2" by (simp only: of_int_less_iff)
  from m0 m2 have "m = 1" by simp
  with mx show ?thesis by simp
qed

lemma not_digit_dot: "\<not> is_digit CHR ''.''"
  by (simp add: is_digit_def)

lemma not_digit_star: "\<not> is_digit CHR ''*''"
  by (simp add: is_digit_def)

lemma match_bold_decimal:
  assumes "list_all is_digit ds" and "ds \<noteq> []" and "is_digit d"
  shows "match_bold (''**'' @ ds @ ''.'' @ [d] @ ''**'' @ rest) = Some (ds @ ''.'' @ [d])"
proof -
  have r: "drop 2 (''**'' @ ds @ ''.'' @ [d] @ ''**'' @ rest) = ds @ CHR ''.'' # d # ''**'' @ rest"
    by simp
  have w: "takeWhile is_digit (ds @ CHR ''.'' # d # ''**'' @ rest) = ds"
    by (rule takeWhile_digits [OF assms(1) not_digit_dot])
  have r1: "dropWhile is_digit (ds @ CHR ''.'' # d # ''**'' @ rest) = CHR ''.'' # d # ''**'' @ rest"
    by (rule dropWhile_digits [OF assms(1) not_digit_dot])
  have fr: "takeWhile is_digit (d # ''**'' @ rest) = [d]"
    using assms(3) by (simp add: not_digit_star)
  have r2: "dropWhile is_digit (d # ''**'' @ rest) = ''**'' @ rest"
    using assms(3) by (simp add: not_digit_star)
  have st: "startswith (''**'' @ ds @ ''.'' @ [d] @ ''**'' @ rest) ''**''"
    by (simp add: startswith_def)
  show ?thesis
    unfolding match_bold_def Let_def r w r1
    using assms(2,3) st by (simp add: fr r2 startswith_def not_digit_star)
qed

lemma decimal_value_decimal:
  assumes "list_all is_digit ds" and "is_digit d"
  shows "decimal_value (ds @ ''.'' @ [d]) = of_int (py_int ds) + of_int (digit_value d) / 10"
proof -
  have w: "takeWhile is_digit (ds @ CHR ''.'' # [d]) = ds"
    by (rule takeWhile_digits [OF assms(1) not_digit_dot])
  have r: "dropWhile is_digit (ds @ CHR ''.'' # [d]) = CHR ''.'' # [d]"
    by (rule dropWhile_digits [OF assms(1) not_digit_dot])
  show ?thesis
    by (simp add: decimal_value_def Let_def w r py_int_def)
qed

lemma search_bold_kpi_line:
  "search_bold (''- This Week KPI: **'' @ rest) = search_bold (''**'' @ rest)"
  by (simp add: match_bold_def startswith_def)

lemma search_bold_match:
  "match_bold (''**'' @ rest) = Some g \<Longrightarrow> search_bold (''**'' @ rest) = Some g"
  by simp

lemma str_in_kpi_line: "str_in ''This Week KPI:'' (''- This Week KPI: **'' @ rest)"
  by (simp add: startswith_def)

lemma float_repr_read_back:
  assumes "float_repr x = Some s"
  shows "match_bold (''**'' @ s @ ''**'' @ rest) = Some s \<and> py_float s = Finite x"
proof -
  from assms have x0: "0 \<le> x" and x52: "x < 2 ^ 52" and half: "of_int \<lfloor>2 * x\<rfloor> = 2 * x"
    and s: "s = str_nat (nat \<lfloor>x\<rfloor>) @ ''.'' @ (if of_int \<lfloor>x\<rfloor> = x then ''0'' else ''5'')"
    by (auto simp: float_repr_def split: if_splits)
  define ds where "ds = str_nat (nat \<lfloor>x\<rfloor>)"
  define d where "d = (if of_int \<lfloor>x\<rfloor> = x then CHR ''0'' else CHR ''5'')"
  have s': "s = ds @ ''.'' @ [d]" by (simp add: s ds_def d_def)
  have d: "is_digit d" by (simp add: is_digit_def d_def)
  have ds: "list_all is_digit ds" "ds \<noteq> []"
    by (simp_all add: ds_def str_nat_digits str_nat_nonempty)
  have fl: "0 \<le> \<lfloor>x\<rfloor>" using x0 by simp
  have dv: "digit_value d = (if of_int \<lfloor>x\<rfloor> = x then 0 else 5)"
    by (simp add: d_def digit_value_def)
  have "decimal_value s = of_int (py_int ds) + of_int (digit_value d) / 10"
    unfolding s' by (rule decimal_value_decimal [OF ds(1) d])
  also have "\<dots> = of_int \<lfloor>x\<rfloor> + (if of_int \<lfloor>x\<rfloor> = x then 0 else 1 / 2)"
    using fl by (simp add: ds_def py_int_str_nat dv)
  also have "\<dots> = x"
    using half_integer [OF half] by auto
  finally have "decimal_value s = x" .
  moreover have "to_float x = Finite x"
    using x0 x52 by (intro to_float_half_integer half) simp
  ultimately have "py_float s = Finite x" by (simp add: py_float_def)
  moreover have "match_bold (''**'' @ s @ ''**'' @ rest) = Some s"
    using match_bold_decimal [OF ds d, of rest] by (simp add: s')
  ultimately show ?thesis by simp
qed

lemma kpi_line_read_back:
  assumes "kpi_line k = Some l"
  shows "scan_lines (l # after) = Some (Finite k)"
proof -
  from assms obtain s where s: "float_repr k = Some s"
    and l: "l = ''- This Week KPI: **'' @ s @ ''**'' @ [CHR 0x0A]"
    by (auto simp: kpi_line_def)
  from float_repr_read_back [OF s, of "[CHR 0x0A]"]
  have m: "match_bold (''**'' @ s @ ''**'' @ [CHR 0x0A]) = Some s"
    and f: "py_float s = Finite k"
    by simp_all
  have "search_bold l = Some s"
    unfolding l using search_bold_match [OF m] by (simp only: search_bold_kpi_line)
  moreover have "str_in ''This Week KPI:'' l"
    unfolding l by (rule str_in_kpi_line)
  ultimately show ?thesis by (simp add: f)
qed

lemma week_num_report_filename:
  assumes "0 \<le> w"
  shows "week_num (report_filename w) = Inr w"
proof -
  define ds where "ds = str_nat (nat w)"
  have ds: "list_all is_digit ds" "ds \<noteq> []"
    by (simp_all add: ds_def str_nat_digits str_nat_nonempty)
  have "digit_runs [] (report_filename w) = digit_runs [] (ds @ ''.md'')"
    using assms by (simp add: report_filename_def str_int_def is_digit_def ds_def)
  also have "\<dots> = digit_runs ds ''.md''"
    using digit_runs_digits [OF ds(1), of "[]" "''.md''"] by simp
  also have "\<dots> = [ds]"
    using ds(2) by (simp add: is_digit_def)
  finally have "digit_runs [] (report_filename w) = [ds]" .
  then show ?thesis
    using assms by (simp add: week_num_def ds_def py_int_str_nat)
qed

lemma report_files_single:
  "report_files [(report_filename w, ls)] = [report_filename w]"
  by (simp add: report_files_def report_filename_def startswith_def)

text \<open>
  C8. The line that line 308 writes for a KPI score is read back by the next run as that
  score: \<open>scan_lines\<close> finds the line after any lines that do not mention
  "This Week KPI:", the pattern matches the text \<open>str\<close> gave, and \<open>float\<close> of it is
  the score, a finite float. So a report of week \<open>w\<close> alone in the store gives a run of a later week the
  KPI it was written with. The witness is the score 7.5, written as \<open>**7.5**\<close>.
\<close>

theorem kpi_line_round_trip:
  assumes "kpi_line k = Some l"
    and "list_all (\<lambda>x. \<not> str_in ''This Week KPI:'' x) before"
    and "0 \<le> w" and "w < current_week"
  shows "scan_lines (before @ l # after) = Some (Finite k)
    \<and> get_previous_week_kpi (Some [(report_filename w, before @ l # after)]) current_week
        = Inr (Finite k)"
proof -
  have scan: "scan_lines (before @ l # after) = Some (Finite k)"
    using scan_lines_skip [OF assms(2)] kpi_line_read_back [OF assms(1)] by simp
  have "scan_reports [(report_filename w, before @ l # after)] current_week [report_filename w]
          = Inr (Finite k)"
    using assms(3,4) scan by (simp add: week_num_report_filename file_lines_def)
  then show ?thesis
    using scan by (simp add: get_previous_week_kpi_def report_files_single)
qed

theorem kpi_line_round_trip_witness:
  "kpi_line (15 / 2) = Some (''- This Week KPI: **7.5**'' @ [CHR 0x0A])
   \<and> report_filename 12 = ''Weekly_Report_Week_12.md''
   \<and> get_previous_week_kpi
        (Some [(''Weekly_Report_Week_12.md'',
                [''## KPI Score Summary'' @ [CHR 0x0A],
                 ''- This Week KPI: **7.5**'' @ [CHR 0x0A],
                 ''- Previous Week KPI: **0**'' @ [CHR 0x0A]])]) 13
       = Inr (Finite (15 / 2))"
proof -
  have k: "kpi_line (15 / 2) = Some (''- This Week KPI: **7.5**'' @ [CHR 0x0A])"
    by code_simp
  have f: "report_filename 12 = ''Weekly_Report_Week_12.md''"
    by code_simp
  have b: "list_all (\<lambda>x. \<not> str_in ''This Week KPI:'' x) [''## KPI Score Summary'' @ [CHR 0x0A]]"
    by (simp add: startswith_def)
  have w: "(0::int) \<le> 12" "(12::int) < 13" by simp_all
  from kpi_line_round_trip [OF k b w, of "[''- Previous Week KPI: **0**'' @ [CHR 0x0A]]"]
  have "get_previous_week_kpi
        (Some [(report_filename 12,
                [''## KPI Score Summary'' @ [CHR 0x0A]]
                  @ (''- This Week KPI: **7.5**'' @ [CHR 0x0A])
                  # [''- Previous Week KPI: **0**'' @ [CHR 0x0A]])]) 13
       = Inr (Finite (15 / 2))"
    by (rule conjunct2)
  then show ?thesis using k f by simp
qed

subsection \<open>The keys of the contributor dictionary stay distinct\<close>

lemma distinct_with_contributor:
  "distinct (map fst (contributors st)) \<Longrightarrow>
     distinct (map fst (contributors (with_contributor k f st)))"
  by (simp add: distinct_update_entry)

lemma distinct_commit_body:
  "distinct (map fst (contributors st)) \<Longrightarrow> commit_body st c = Inr st' \<Longrightarrow>
     distinct (map fst (contributors st'))"
  unfolding commit_body_def classify_def Let_def
  by (auto split: option.splits simp: distinct_update_entry)

lemma distinct_commits_loop:
  "distinct (map fst (contributors st)) \<Longrightarrow>
     distinct (map fst (contributors (final_state (commits_loop st cs))))"
  by (induction cs arbitrary: st) (auto split: sum.splits dest: distinct_commit_body)

lemma distinct_issue_body:
  "distinct (map fst (contributors st)) \<Longrightarrow>
     distinct (map fst (contributors (issue_body now st i)))"
  unfolding issue_body_def Let_def
  by (auto split: option.splits simp: distinct_update_entry)

lemma distinct_issues_loop:
  "distinct (map fst (contributors st)) \<Longrightarrow>
     distinct (map fst (contributors (issues_loop now st is)))"
  by (induction "is" arbitrary: st) (auto simp: distinct_issue_body)

lemma contributors_task_body: "contributors (task_body now st item) = contributors st"
  by (simp add: task_body_def Let_def)

lemma contributors_tasks_loop: "contributors (tasks_loop now st items) = contributors st"
  by (induction items arbitrary: st) (simp_all add: contributors_task_body)

lemma distinct_run_stage:
  assumes "distinct (map fst (contributors st))"
  shows "distinct (map fst (contributors (final_state (run_stage now st s))))"
proof (cases s)
  case (Commits r)
  then show ?thesis using assms
    by (cases r) (simp_all add: get_commits_def distinct_commits_loop)
next
  case (Issues r)
  then show ?thesis using assms
    by (cases r)
      (simp_all add: get_issues_def distinct_issues_loop split: sum.splits list.splits)
next
  case (Tasks r)
  then show ?thesis using assms
    by (cases r) (simp_all add: get_project_tasks_def contributors_tasks_loop)
qed

lemma distinct_run_stages:
  "distinct (map fst (contributors st)) \<Longrightarrow>
     distinct (map fst (contributors (final_state (run_stages now st ss))))"
proof (induction ss arbitrary: st)
  case Nil
  then show ?case by simp
next
  case (Cons s ss)
  from Cons.prems
  have step: "distinct (map fst (contributors (final_state (run_stage now st s))))"
    by (rule distinct_run_stage)
  show ?case
  proof (cases "run_stage now st s")
    case (Returned st')
    with step Cons.IH show ?thesis by simp
  next
    case (Raised e st')
    with step show ?thesis by simp
  qed
qed

lemma distinct_keys_reachable:
  "distinct (map fst (contributors (final_state (run_stages now initial_state ss))))"
  by (rule distinct_run_stages) (simp add: initial_state_def)

end
